theory Spec2Isabelle
  imports Main "HOL-Library.Sublist"
begin

section \<open>Code Shield page: strings and the severity badge\<close>

text \<open>
  The page (\<^verbatim>\<open>src/page.tsx\<close>) is a React component tree: a scan form, one
  \<^verbatim>\<open>RemediationSection\<close> per finding, and a best-practices form. Strings of the
  page are modelled as \<^typ>\<open>string\<close>, one list element per code unit, so that
  \<^verbatim>\<open>s.length\<close> is \<^term>\<open>length s\<close>. Case mapping is modelled for the ASCII letters.
\<close>

subsection \<open>\<^verbatim>\<open>String.prototype.toLowerCase\<close> and \<^verbatim>\<open>includes\<close>\<close>

definition toLowerChar :: "char \<Rightarrow> char" where
  "toLowerChar c =
     (case map_of (zip ''ABCDEFGHIJKLMNOPQRSTUVWXYZ'' ''abcdefghijklmnopqrstuvwxyz'') c of
        Some d \<Rightarrow> d
      | None \<Rightarrow> c)"

definition toLowerCase :: "string \<Rightarrow> string" where
  "toLowerCase s = map toLowerChar s"

text \<open>\<^verbatim>\<open>hay.startsWith(needle)\<close> and \<^verbatim>\<open>hay.includes(needle)\<close>: exact comparison of code units.\<close>

fun startsWith :: "string \<Rightarrow> string \<Rightarrow> bool" where
  "startsWith hay [] = True"
| "startsWith [] (n # ns) = False"
| "startsWith (h # hs) (n # ns) = (h = n \<and> startsWith hs ns)"

fun includes_str :: "string \<Rightarrow> string \<Rightarrow> bool" where
  "includes_str [] needle = startsWith [] needle"
| "includes_str (h # hs) needle = (startsWith (h # hs) needle \<or> includes_str hs needle)"

subsection \<open>\<^verbatim>\<open>getBadgeVariant\<close> (page.tsx, lines 272-278)\<close>

datatype badge_variant = Destructive | Secondary | Outline | Default

definition getBadgeVariant :: "string \<Rightarrow> badge_variant" where
  "getBadgeVariant severity =
     (let lowerSeverity = toLowerCase severity in
      if includes_str lowerSeverity ''high'' \<or> includes_str lowerSeverity ''critical'' then Destructive
      else if includes_str lowerSeverity ''medium'' then Secondary
      else if includes_str lowerSeverity ''low'' then Outline
      else Default)"

subsection \<open>Case-insensitive occurrence, as the specification words it\<close>

text \<open>
  Two characters agree up to case when their lower-case forms coincide; a word occurs in
  a string ignoring case when some contiguous stretch of the string agrees with the word
  character by character up to case.
\<close>

definition eqIgnoreCase :: "char \<Rightarrow> char \<Rightarrow> bool" where
  "eqIgnoreCase a b = (toLowerChar a = toLowerChar b)"

fun matchesAt :: "string \<Rightarrow> string \<Rightarrow> bool" where
  "matchesAt s [] = True"
| "matchesAt [] (w # ws) = False"
| "matchesAt (c # cs) (w # ws) = (eqIgnoreCase c w \<and> matchesAt cs ws)"

fun occursIgnoringCase :: "string \<Rightarrow> string \<Rightarrow> bool" where
  "occursIgnoringCase [] w = matchesAt [] w"
| "occursIgnoringCase (c # cs) w = (matchesAt (c # cs) w \<or> occursIgnoringCase cs w)"

section \<open>Data model\<close>

text \<open>
  The best-practices form holds a language, the scan form a language and a code text, and
  a \<^verbatim>\<open>RemediationSection\<close> receives a language, a code text and its vulnerability
  as props (lines 39-44).
\<close>

record language_values =
  language :: string

record scan_values = language_values +
  code :: string

record vulnerability =
  description :: string
  severity :: string
  location :: string
  recommendation :: string
  references :: "string list option"

record remediation_props = scan_values +
  vulnerability :: vulnerability

record scan_output =
  vulnerabilities :: "vulnerability list"

subsection \<open>Validation schemas (lines 24-35)\<close>

definition supportedLanguages :: "string list" where
  "supportedLanguages =
     [''JavaScript'', ''Python'', ''Java'', ''C++'', ''C#'', ''TypeScript'', ''PHP'', ''Ruby'',
      ''Go'', ''Swift'', ''Kotlin'', ''Rust'', ''SQL'', ''HTML'', ''CSS'']"

datatype field = LanguageField | CodeField

type_synonym issue = "field \<times> string"

text \<open>
  A schema returns the list of issues it finds, in the order of its checks; the empty list
  means that the values are valid. \<^verbatim>\<open>z.string().min(n)\<close> reports when the length is
  below \<open>n\<close>, \<^verbatim>\<open>.max(n)\<close> when it is above \<open>n\<close>.
\<close>

definition formSchema :: "scan_values \<Rightarrow> issue list" where
  "formSchema v =
     (if length (language v) < 1 then [(LanguageField, ''Please select a language.'')] else [])
     @ (if length (code v) < 20
        then [(CodeField, ''Please enter at least 20 characters of code.'')] else [])
     @ (if length (code v) > 8000
        then [(CodeField, ''Code cannot exceed 8000 characters.'')] else [])"

definition bestPracticesFormSchema :: "language_values \<Rightarrow> issue list" where
  "bestPracticesFormSchema v =
     (if length (language v) < 1 then [(LanguageField, ''Please select a language.'')] else [])"

subsection \<open>The gateway and the notifications\<close>

text \<open>
  The three server actions are outside the page. A call is recorded with its arguments;
  what comes back is an outcome: the promise resolves with a value, the promise rejects,
  or the call itself raises before returning a promise.
\<close>

datatype gateway_call =
    HandleVulnerabilityScan (scanLanguage: string) (scanCode: string)
  | HandleRemediation (codeSnippet: string) (vulnerabilityDescription: string)
      (remediationLanguage: string)
  | HandleBestPractices (practicesLanguage: string)

datatype 'a outcome = Resolved 'a | Rejected | Thrown

datatype toast_variant = DefaultToast | DestructiveToast

datatype toast = Toast (variant: toast_variant) (title: string) (body: string)

definition scanCleanToast :: toast where
  "scanCleanToast = Toast DefaultToast ''Scan Complete: No Vulnerabilities Found''
     ''The AI scan completed and found no potential vulnerabilities.''"

definition scanFailedToast :: toast where
  "scanFailedToast = Toast DestructiveToast ''Scan Failed''
     ''An error occurred while scanning the code. Please try again.''"

definition remediationFailedToast :: toast where
  "remediationFailedToast = Toast DestructiveToast ''Failed to get remediation''
     ''An error occurred while generating suggestions. Please try again.''"

definition bestPracticesFailedToast :: toast where
  "bestPracticesFailedToast = Toast DestructiveToast ''Failed to get best practices''
     ''An error occurred while generating best practices. Please try again.''"

subsection \<open>State of the page\<close>

text \<open>
  \<open>remediation_state\<close> is the pair of \<^verbatim>\<open>useState\<close> cells of one
  \<^verbatim>\<open>RemediationSection\<close> (lines 45-46). A \<open>panel\<close> is one rendered
  \<^verbatim>\<open>AccordionItem\<close> (lines 410-449) with the props it hands to its
  \<^verbatim>\<open>RemediationSection\<close>.
\<close>

record remediation_state =
  remIsLoading :: bool
  suggestion :: "string option"

record panel =
  itemIndex :: nat
  finding :: vulnerability
  badge :: badge_variant
  badgeText :: string
  referenceLinks :: "string list"
  remediationProps :: remediation_props

text \<open>
  The page state collects the values of the scan form and of the best-practices form, the
  \<^verbatim>\<open>useState\<close> cells of \<^verbatim>\<open>CodeShieldPage\<close> and
  \<^verbatim>\<open>BestPracticesSection\<close>, the sections mounted for the rendered findings (keyed by
  index, as \<^verbatim>\<open>key={index}\<close>), and what the last render of the page put on screen.
  \<open>submitErrors\<close> are the issues reported by the latest submission. \<open>toasts\<close> and
  \<open>gateway\<close> record the notifications raised and the gateway calls made, oldest first.
  \<open>reads\<close> are the texts of the files a \<^verbatim>\<open>FileReader\<close> is reading.
  \<open>openItem\<close> is the accordion item that is open, if any. \<open>sections\<close> holds, for
  every rendered finding, the state of its section; the section of an item that is not
  open is not mounted and is kept in its initial state, the one it starts from when it is
  mounted. \<open>mountEpoch\<close> counts how often a section was taken off the screen: it tells
  one mounting of a section from the next.
\<close>

record page =
  form :: scan_values
  submitErrors :: "issue list"
  scanResult :: "scan_output option"
  isLoading :: bool
  panels :: "panel list"
  openItem :: "nat option"
  sections :: "remediation_state list"
  mountEpoch :: nat
  reads :: "string list"
  practicesForm :: language_values
  practicesSubmitErrors :: "issue list"
  practicesIsLoading :: bool
  bestPractices :: "string option"
  toasts :: "toast list"
  gateway :: "gateway_call list"

definition initialSection :: remediation_state where
  "initialSection = \<lparr>remIsLoading = False, suggestion = None\<rparr>"

definition initialPage :: page where
  "initialPage =
     \<lparr>form = \<lparr>language = [], code = []\<rparr>, submitErrors = [], scanResult = None,
      isLoading = False, panels = [], openItem = None, sections = [], mountEpoch = 0,
      reads = [],
      practicesForm = \<lparr>language = []\<rparr>, practicesSubmitErrors = [],
      practicesIsLoading = False, bestPractices = None, toasts = [], gateway = []\<rparr>"

subsection \<open>Rendering the result area (lines 395-455)\<close>

definition renderPanel :: "scan_values \<Rightarrow> nat \<times> vulnerability \<Rightarrow> panel" where
  "renderPanel values iv =
     (case iv of (index, vuln) \<Rightarrow>
       \<lparr>itemIndex = index,
        finding = vuln,
        badge = getBadgeVariant (severity vuln),
        badgeText = severity vuln,
        referenceLinks = (case references vuln of None \<Rightarrow> [] | Some refs \<Rightarrow> refs),
        remediationProps =
          \<lparr>language = language values, code = code values, vulnerability = vuln\<rparr>\<rparr>)"

definition renderPanels :: "page \<Rightarrow> panel list" where
  "renderPanels s =
     (case scanResult s of
        None \<Rightarrow> []
      | Some result \<Rightarrow>
          if length (vulnerabilities result) > 0
          then map (renderPanel (form s)) (enumerate 0 (vulnerabilities result))
          else [])"

text \<open>
  Modelled from the spec: the \<^verbatim>\<open>Accordion\<close> components that hold the sections are
  not part of the source file. The page uses them as \<^verbatim>\<open>type="single" collapsible\<close>
  (line 408): at most one item is open, and the content of an item, its
  \<^verbatim>\<open>RemediationSection\<close> included, is on screen only while the item is open. The
  specification scopes the remediation state of a finding to that finding's render
  lifetime: a section starts from its initial state when it is mounted and its state is
  gone when it is taken off the screen.
\<close>

definition mountSections :: "nat \<Rightarrow> remediation_state list \<Rightarrow> remediation_state list" where
  "mountSections n old = take n old @ replicate (n - length old) initialSection"

text \<open>
  A click on the trigger of item \<open>i\<close>: the open item closes; item \<open>i\<close> opens unless
  it was the open one. The section that was mounted is gone, the section of a newly opened
  item starts afresh. The accordion keeps this state itself, so the page is not rendered
  again and the section is mounted with the props of the last render.
\<close>

definition toggleItem :: "nat \<Rightarrow> page \<Rightarrow> page" where
  "toggleItem i s =
     s\<lparr>openItem := (if openItem s = Some i then None else Some i),
       sections := replicate (length (sections s)) initialSection,
       mountEpoch := Suc (mountEpoch s)\<rparr>"

text \<open>
  A render of the page reads the form values of that moment (\<^verbatim>\<open>form.getValues\<close>,
  lines 444-445) into the props of every section. The accordion is part of the result
  area (line 395): without a panel to show it is off the screen, and no item is open when
  it comes back.
\<close>

definition rerender :: "page \<Rightarrow> page" where
  "rerender s =
     (let ps = renderPanels s in
      s\<lparr>panels := ps,
        openItem := (if ps = [] then None else openItem s),
        sections := mountSections (length ps) (sections s),
        mountEpoch := (if ps = [] \<and> sections s \<noteq> [] then Suc (mountEpoch s)
                       else mountEpoch s)\<rparr>)"

subsection \<open>The handlers\<close>

text \<open>
  Modelled from the spec: the notification hook (\<^verbatim>\<open>useToast\<close>) is not part of the
  source file. The specification describes a shared channel on which any component
  publishes a message; a call of \<^verbatim>\<open>toast\<close> is recorded as the message it publishes.
\<close>

definition toast :: "toast \<Rightarrow> page \<Rightarrow> page" where
  "toast t s = s\<lparr>toasts := toasts s @ [t]\<rparr>"

text \<open>
  An asynchronous handler is given in two parts, split at its \<^verbatim>\<open>await\<close>: the part
  that runs up to and including the gateway call, and the part that runs once the outcome
  of the call is known (the rest of the \<^verbatim>\<open>try\<close> block, or the \<^verbatim>\<open>catch\<close>
  block, and then the \<^verbatim>\<open>finally\<close> block). The whole invocation is their
  composition.
\<close>

text \<open>\<^verbatim>\<open>onSubmit\<close> of the scan form (lines 247-270).\<close>

definition onSubmit_call :: "scan_values \<Rightarrow> page \<Rightarrow> page" where
  "onSubmit_call values s =
     s\<lparr>isLoading := True, scanResult := None,
       gateway := gateway s @ [HandleVulnerabilityScan (language values) (code values)]\<rparr>"

definition onSubmit_settled :: "scan_output outcome \<Rightarrow> page \<Rightarrow> page" where
  "onSubmit_settled out s =
     (case out of
        Resolved result \<Rightarrow>
          (if length (vulnerabilities result) = 0 then toast scanCleanToast s else s)
            \<lparr>scanResult := Some result, isLoading := False\<rparr>
      | Rejected \<Rightarrow> (toast scanFailedToast s)\<lparr>isLoading := False\<rparr>
      | Thrown \<Rightarrow> (toast scanFailedToast s)\<lparr>isLoading := False\<rparr>)"

definition onSubmit :: "scan_values \<Rightarrow> scan_output outcome \<Rightarrow> page \<Rightarrow> page" where
  "onSubmit values out s = onSubmit_settled out (onSubmit_call values s)"

text \<open>
  \<^verbatim>\<open>form.handleSubmit(onSubmit)\<close> (line 304): the resolver validates the current
  form values and \<^verbatim>\<open>onSubmit\<close> runs only when there is no issue.
\<close>

definition submitScan :: "page \<Rightarrow> page" where
  "submitScan s =
     (let errors = formSchema (form s) in
      if errors = [] then onSubmit_call (form s) (s\<lparr>submitErrors := []\<rparr>)
      else s\<lparr>submitErrors := errors\<rparr>)"

text \<open>\<^verbatim>\<open>onGetRemediation\<close> of the section with index \<open>i\<close> (lines 48-68).\<close>

definition onGetRemediation_call :: "remediation_props \<Rightarrow> nat \<Rightarrow> page \<Rightarrow> page" where
  "onGetRemediation_call props i s =
     s\<lparr>sections := (sections s)[i := (sections s ! i)\<lparr>remIsLoading := True, suggestion := None\<rparr>],
       gateway := gateway s
         @ [HandleRemediation (code props) (description (vulnerability props)) (language props)]\<rparr>"

definition onGetRemediation_settled :: "string outcome \<Rightarrow> nat \<Rightarrow> page \<Rightarrow> page" where
  "onGetRemediation_settled out i s =
     (case out of
        Resolved result \<Rightarrow>
          s\<lparr>sections :=
              (sections s)[i := (sections s ! i)\<lparr>suggestion := Some result, remIsLoading := False\<rparr>]\<rparr>
      | Rejected \<Rightarrow>
          (toast remediationFailedToast s)
            \<lparr>sections := (sections s)[i := (sections s ! i)\<lparr>remIsLoading := False\<rparr>]\<rparr>
      | Thrown \<Rightarrow>
          (toast remediationFailedToast s)
            \<lparr>sections := (sections s)[i := (sections s ! i)\<lparr>remIsLoading := False\<rparr>]\<rparr>)"

text \<open>
  When the section is no longer mounted by the time its call settles, its setters change
  nothing; the \<^verbatim>\<open>catch\<close> block still raises its notification.
\<close>

definition onGetRemediation_settled_unmounted :: "string outcome \<Rightarrow> page \<Rightarrow> page" where
  "onGetRemediation_settled_unmounted out s =
     (case out of
        Resolved result \<Rightarrow> s
      | Rejected \<Rightarrow> toast remediationFailedToast s
      | Thrown \<Rightarrow> toast remediationFailedToast s)"

definition onGetRemediation ::
  "remediation_props \<Rightarrow> string outcome \<Rightarrow> nat \<Rightarrow> page \<Rightarrow> page" where
  "onGetRemediation props out i s = onGetRemediation_settled out i (onGetRemediation_call props i s)"

text \<open>\<^verbatim>\<open>onSubmit\<close> of the best-practices form (lines 135-152) and its \<^verbatim>\<open>handleSubmit\<close> (line 167).\<close>

definition practicesOnSubmit_call :: "language_values \<Rightarrow> page \<Rightarrow> page" where
  "practicesOnSubmit_call values s =
     s\<lparr>practicesIsLoading := True, bestPractices := None,
       gateway := gateway s @ [HandleBestPractices (language values)]\<rparr>"

definition practicesOnSubmit_settled :: "string outcome \<Rightarrow> page \<Rightarrow> page" where
  "practicesOnSubmit_settled out s =
     (case out of
        Resolved result \<Rightarrow> s\<lparr>bestPractices := Some result, practicesIsLoading := False\<rparr>
      | Rejected \<Rightarrow> (toast bestPracticesFailedToast s)\<lparr>practicesIsLoading := False\<rparr>
      | Thrown \<Rightarrow> (toast bestPracticesFailedToast s)\<lparr>practicesIsLoading := False\<rparr>)"

definition practicesOnSubmit :: "language_values \<Rightarrow> string outcome \<Rightarrow> page \<Rightarrow> page" where
  "practicesOnSubmit values out s = practicesOnSubmit_settled out (practicesOnSubmit_call values s)"

definition submitBestPractices :: "page \<Rightarrow> page" where
  "submitBestPractices s =
     (let errors = bestPracticesFormSchema (practicesForm s) in
      if errors = [] then practicesOnSubmit_call (practicesForm s) (s\<lparr>practicesSubmitErrors := []\<rparr>)
      else s\<lparr>practicesSubmitErrors := errors\<rparr>)"

text \<open>
  \<^verbatim>\<open>handleFileChange\<close> (lines 235-245). The argument is \<^verbatim>\<open>event.target.files\<close>,
  absent or a list of files, each file given by its text. With a first file, a reader
  starts on it; the reader's \<^verbatim>\<open>onload\<close> later puts the text into the code field.
\<close>

definition setCode :: "string \<Rightarrow> page \<Rightarrow> page" where
  "setCode text s = s\<lparr>form := (form s)\<lparr>code := text\<rparr>\<rparr>"

definition handleFileChange :: "string list option \<Rightarrow> page \<Rightarrow> page" where
  "handleFileChange files s =
     (case files of
        None \<Rightarrow> s
      | Some [] \<Rightarrow> s
      | Some (file # others) \<Rightarrow> s\<lparr>reads := reads s @ [file]\<rparr>)"

definition reader_onload :: "nat \<Rightarrow> page \<Rightarrow> page" where
  "reader_onload k s =
     setCode (reads s ! k) (s\<lparr>reads := take k (reads s) @ drop (Suc k) (reads s)\<rparr>)"

subsection \<open>Events of the page\<close>

text \<open>
  What the user and the gateway can do to the page. A control that is disabled or not on
  screen cannot be used: the submit buttons while their form is loading (lines 192, 347),
  "Suggest a Fix" unless its item is open and while its section is loading (line 72),
  "Clear Code" while the scan is loading or the code is empty (line 382). A settlement
  reaches the handler that is waiting for it: the scan and the best-practices forms wait
  exactly while they are loading; a section is named by the epoch in which it was mounted
  and its index.

  The page is rendered again after an event that changes one of its own state cells or the
  notifications, or the code field, which the page watches (line 382). Whether the form
  library renders the page on other occasions, such as a change of the language field
  alone or a submission that validation rejects, is not fixed by the source: the event
  \<open>Rerender\<close> stands for any such render.
\<close>

datatype event =
    EditLanguage string
  | EditCode string
  | ClearCode
  | FileChange "string list option"
  | ReaderLoad nat
  | SubmitScan
  | ScanSettled "scan_output outcome"
  | ToggleItem nat
  | ClickRemediation nat
  | RemediationSettled nat nat "string outcome"
  | EditPracticesLanguage string
  | SubmitBestPractices
  | BestPracticesSettled "string outcome"
  | Rerender

fun step :: "event \<Rightarrow> page \<Rightarrow> page" where
  "step (EditLanguage l) s = s\<lparr>form := (form s)\<lparr>language := l\<rparr>\<rparr>"
| "step (EditCode c) s = rerender (setCode c s)"
| "step ClearCode s =
     (if isLoading s \<or> code (form s) = [] then s else rerender (setCode [] s))"
| "step (FileChange files) s = handleFileChange files s"
| "step (ReaderLoad k) s = (if k < length (reads s) then rerender (reader_onload k s) else s)"
| "step SubmitScan s =
     (if isLoading s then s
      else (let t = submitScan s in if isLoading t then rerender t else t))"
| "step (ScanSettled out) s = (if isLoading s then rerender (onSubmit_settled out s) else s)"
| "step (ToggleItem i) s = (if i < length (panels s) then toggleItem i s else s)"
| "step (ClickRemediation i) s =
     (if openItem s = Some i \<and> i < length (panels s) \<and> i < length (sections s)
         \<and> \<not> remIsLoading (sections s ! i)
      then onGetRemediation_call (remediationProps (panels s ! i)) i s
      else s)"
| "step (RemediationSettled epoch i out) s =
     (if epoch = mountEpoch s \<and> openItem s = Some i \<and> i < length (sections s)
      then (case out of
              Resolved result \<Rightarrow> onGetRemediation_settled out i s
            | Rejected \<Rightarrow> rerender (onGetRemediation_settled out i s)
            | Thrown \<Rightarrow> rerender (onGetRemediation_settled out i s))
      else (case out of
              Resolved result \<Rightarrow> s
            | Rejected \<Rightarrow> rerender (onGetRemediation_settled_unmounted out s)
            | Thrown \<Rightarrow> rerender (onGetRemediation_settled_unmounted out s)))"
| "step (EditPracticesLanguage l) s = s\<lparr>practicesForm := (practicesForm s)\<lparr>language := l\<rparr>\<rparr>"
| "step SubmitBestPractices s = (if practicesIsLoading s then s else submitBestPractices s)"
| "step (BestPracticesSettled out) s =
     (if practicesIsLoading s
      then (case out of
              Resolved result \<Rightarrow> practicesOnSubmit_settled out s
            | Rejected \<Rightarrow> rerender (practicesOnSubmit_settled out s)
            | Thrown \<Rightarrow> rerender (practicesOnSubmit_settled out s))
      else s)"
| "step Rerender s = rerender s"

fun run :: "event list \<Rightarrow> page \<Rightarrow> page" where
  "run [] s = s"
| "run (e # es) s = run es (step e s)"

fun editsForm :: "event \<Rightarrow> bool" where
  "editsForm (EditLanguage l) = True"
| "editsForm (EditCode c) = True"
| "editsForm ClearCode = True"
| "editsForm (ReaderLoad k) = True"
| "editsForm e = False"

subsection \<open>Notions used by the properties\<close>

text \<open>A gateway call has failed when its promise rejects or the call raises.\<close>

fun failed :: "'a outcome \<Rightarrow> bool" where
  "failed (Resolved r) = False"
| "failed Rejected = True"
| "failed Thrown = True"



text \<open>A remediation call sends the values \<open>v\<close> when its language and code are those of \<open>v\<close>.\<close>

definition sendsValues :: "scan_values \<Rightarrow> gateway_call \<Rightarrow> bool" where
  "sendsValues v c =
     (case c of
        HandleRemediation snippet descr lang \<Rightarrow> snippet = code v \<and> lang = language v
      | HandleVulnerabilityScan lang snippet \<Rightarrow> True
      | HandleBestPractices lang \<Rightarrow> True)"

definition propsCarry :: "scan_values \<Rightarrow> page \<Rightarrow> bool" where
  "propsCarry v s \<longleftrightarrow>
     form s = v
     \<and> (\<forall>p \<in> set (panels s).
           language (remediationProps p) = language v \<and> code (remediationProps p) = code v)"

definition appends :: "scan_values \<Rightarrow> page \<Rightarrow> page \<Rightarrow> bool" where
  "appends v s t \<longleftrightarrow> (\<exists>new. gateway t = gateway s @ new \<and> (\<forall>c \<in> set new. sendsValues v c))"

subsection \<open>Example inputs\<close>

definition codeOfLength :: "nat \<Rightarrow> string" where
  "codeOfLength n = replicate n CHR ''a''"

definition pageWith :: "string \<Rightarrow> string \<Rightarrow> page" where
  "pageWith l c = initialPage\<lparr>form := \<lparr>language = l, code = c\<rparr>\<rparr>"

definition injectionFinding :: vulnerability where
  "injectionFinding =
     \<lparr>description = ''SQL injection'', severity = ''High'', location = ''line 1'',
      recommendation = ''Use bound parameters'', references = Some [''https://owasp.org'']\<rparr>"

definition weakHashFinding :: vulnerability where
  "weakHashFinding =
     \<lparr>description = ''Weak hash'', severity = ''medium'', location = ''line 2'',
      recommendation = ''Use SHA-256'', references = None\<rparr>"

definition submittedCode :: string where
  "submittedCode = ''eval(request.body.input)''"

definition editedCode :: string where
  "editedCode = ''print(1); print(2); print(3)''"

definition injectionProps :: remediation_props where
  "injectionProps = \<lparr>language = ''Python'', code = submittedCode, vulnerability = injectionFinding\<rparr>"

definition weakHashProps :: remediation_props where
  "weakHashProps = \<lparr>language = ''Python'', code = submittedCode, vulnerability = weakHashFinding\<rparr>"

text \<open>The page after a scan of \<open>submittedCode\<close> has returned two findings.\<close>

definition shownPage :: page where
  "shownPage =
     run [EditLanguage ''Python'', EditCode submittedCode, SubmitScan,
          ScanSettled (Resolved \<lparr>vulnerabilities = [injectionFinding, weakHashFinding]\<rparr>)]
       initialPage"

text \<open>
  The same page once the second finding shows a suggestion and the best-practices form
  shows a result.
\<close>

definition busyPage :: page where
  "busyPage =
     run [ToggleItem 1, ClickRemediation 1, RemediationSettled 1 1 (Resolved ''fix B''),
          EditPracticesLanguage ''Go'', SubmitBestPractices,
          BestPracticesSettled (Resolved ''Validate all input'')]
       shownPage"

text \<open>
  The same page while a request for the first finding is under way and the second
  finding has been opened and asked for its remediation too.
\<close>

definition pendingPage :: page where
  "pendingPage =
     run [ToggleItem 0, ClickRemediation 0, ToggleItem 1, ClickRemediation 1] shownPage"

section \<open>Properties of the severity badge\<close>

lemma startsWith_iff_prefix: "startsWith hay needle \<longleftrightarrow> prefix needle hay"
  by (induction hay needle rule: startsWith.induct) auto

lemma includes_iff_sublist: "includes_str hay needle \<longleftrightarrow> sublist needle hay"
  by (induction hay) (auto simp: startsWith_iff_prefix sublist_Cons_right)

lemma matchesAt_iff:
  "matchesAt s w \<longleftrightarrow> (\<exists>mid post. s = mid @ post \<and> list_all2 eqIgnoreCase mid w)"
proof (induction s w rule: matchesAt.induct)
  case (1 s)
  then show ?case by simp
next
  case (2 w ws)
  then show ?case by simp
next
  case (3 c cs w ws)
  show ?case
  proof
    assume "matchesAt (c # cs) (w # ws)"
    then obtain mid post where "eqIgnoreCase c w" "cs = mid @ post" "list_all2 eqIgnoreCase mid ws"
      using 3 by auto
    then have "c # cs = (c # mid) @ post \<and> list_all2 eqIgnoreCase (c # mid) (w # ws)"
      by simp
    then show "\<exists>mid post. c # cs = mid @ post \<and> list_all2 eqIgnoreCase mid (w # ws)"
      by blast
  next
    assume "\<exists>mid post. c # cs = mid @ post \<and> list_all2 eqIgnoreCase mid (w # ws)"
    then obtain mid post where mp: "c # cs = mid @ post" "list_all2 eqIgnoreCase mid (w # ws)"
      by blast
    then obtain m ms where "mid = m # ms" "eqIgnoreCase m w" "list_all2 eqIgnoreCase ms ws"
      by (auto simp: list_all2_Cons2)
    with mp 3 show "matchesAt (c # cs) (w # ws)"
      by auto
  qed
qed

lemma occursIgnoringCase_iff:
  "occursIgnoringCase s w \<longleftrightarrow>
     (\<exists>pre mid post. s = pre @ mid @ post \<and> list_all2 eqIgnoreCase mid w)"
proof (induction s)
  case Nil
  then show ?case by (auto simp: matchesAt_iff)
next
  case (Cons c cs)
  show ?case
  proof
    assume "occursIgnoringCase (c # cs) w"
    then consider "matchesAt (c # cs) w" | "occursIgnoringCase cs w"
      by auto
    then show "\<exists>pre mid post. c # cs = pre @ mid @ post \<and> list_all2 eqIgnoreCase mid w"
    proof cases
      case 1
      then obtain mid post where "c # cs = [] @ mid @ post" "list_all2 eqIgnoreCase mid w"
        by (auto simp: matchesAt_iff)
      then show ?thesis by blast
    next
      case 2
      then obtain pre mid post where "cs = pre @ mid @ post" "list_all2 eqIgnoreCase mid w"
        using Cons by blast
      then have "c # cs = (c # pre) @ mid @ post \<and> list_all2 eqIgnoreCase mid w"
        by simp
      then show ?thesis by blast
    qed
  next
    assume "\<exists>pre mid post. c # cs = pre @ mid @ post \<and> list_all2 eqIgnoreCase mid w"
    then obtain pre mid post where
      pmp: "c # cs = pre @ mid @ post" "list_all2 eqIgnoreCase mid w"
      by blast
    show "occursIgnoringCase (c # cs) w"
    proof (cases pre)
      case Nil
      with pmp have "matchesAt (c # cs) w"
        by (auto simp: matchesAt_iff)
      then show ?thesis by simp
    next
      case (Cons p ps)
      with pmp have "cs = ps @ mid @ post"
        by simp
      with pmp(2) have "occursIgnoringCase cs w"
        using Cons.IH by blast
      then show ?thesis by simp
    qed
  qed
qed

lemma startsWith_toLowerCase:
  "toLowerCase w = w \<Longrightarrow> startsWith (toLowerCase s) w \<longleftrightarrow> matchesAt s w"
proof (induction s w rule: matchesAt.induct)
  case (1 s)
  then show ?case by simp
next
  case (2 w ws)
  then show ?case by (simp add: toLowerCase_def)
next
  case (3 c cs w ws)
  then have "toLowerChar w = w" "toLowerCase ws = ws"
    by (simp_all add: toLowerCase_def)
  with 3 show ?case
    by (auto simp: toLowerCase_def eqIgnoreCase_def)
qed

lemma includes_toLowerCase:
  "toLowerCase w = w \<Longrightarrow> includes_str (toLowerCase s) w \<longleftrightarrow> occursIgnoringCase s w"
proof (induction s)
  case Nil
  then show ?case
    using startsWith_toLowerCase [of w "[]"] by (simp add: toLowerCase_def)
next
  case (Cons c cs)
  then show ?case
    using startsWith_toLowerCase [of w "c # cs"] by (simp add: toLowerCase_def)
qed

lemma lower_words:
  "toLowerCase ''high'' = ''high''" "toLowerCase ''critical'' = ''critical''"
  "toLowerCase ''medium'' = ''medium''" "toLowerCase ''low'' = ''low''"
  by (simp_all add: toLowerCase_def toLowerChar_def)

text \<open>
  C5: the badge variant of a severity string is decided by case-insensitive occurrence of
  a word, the first match winning: "high" or "critical" give the destructive style,
  otherwise "medium" gives the secondary style, otherwise "low" gives the outline style,
  and every other string gets the default style.
\<close>

theorem getBadgeVariant_case_insensitive:
  "getBadgeVariant sev =
     (if occursIgnoringCase sev ''high'' \<or> occursIgnoringCase sev ''critical''
      then Destructive
      else if occursIgnoringCase sev ''medium'' then Secondary
      else if occursIgnoringCase sev ''low'' then Outline
      else Default)"
  by (simp add: getBadgeVariant_def Let_def includes_toLowerCase lower_words)

theorem getBadgeVariant_case_insensitive_witness:
  "getBadgeVariant ''Medium-LOW'' = Secondary \<and> occursIgnoringCase ''Medium-LOW'' ''medium''
   \<and> occursIgnoringCase ''Medium-LOW'' ''low'' \<and> \<not> occursIgnoringCase ''Medium-LOW'' ''high''
   \<and> \<not> occursIgnoringCase ''Medium-LOW'' ''critical''"
proof -
  have a: "occursIgnoringCase ''Medium-LOW'' ''medium''" by code_simp
  have b: "occursIgnoringCase ''Medium-LOW'' ''low''" by code_simp
  have c: "\<not> occursIgnoringCase ''Medium-LOW'' ''high''" by code_simp
  have d: "\<not> occursIgnoringCase ''Medium-LOW'' ''critical''" by code_simp
  show ?thesis
    using getBadgeVariant_case_insensitive [of "''Medium-LOW''"] a b c d by simp
qed

section \<open>Properties of validation and submission\<close>

lemmas eval_defs = initialPage_def pageWith_def submittedCode_def editedCode_def
  injectionFinding_def weakHashFinding_def injectionProps_def weakHashProps_def shownPage_def
  busyPage_def pendingPage_def toggleItem_def onGetRemediation_settled_unmounted_def
  rerender_def mountSections_def renderPanels_def renderPanel_def setCode_def
  submitScan_def formSchema_def submitBestPractices_def bestPracticesFormSchema_def
  onSubmit_def onSubmit_call_def onSubmit_settled_def
  onGetRemediation_def onGetRemediation_call_def onGetRemediation_settled_def
  practicesOnSubmit_def practicesOnSubmit_call_def practicesOnSubmit_settled_def
  toast_def initialSection_def Let_def

lemma length_codeOfLength [simp]: "length (codeOfLength n) = n"
  by (simp only: codeOfLength_def length_replicate)

lemma codeOfLength_empty [simp]: "codeOfLength n = [] \<longleftrightarrow> n = 0"
  by (simp only: codeOfLength_def replicate_empty)

lemma rerender_fields [simp]:
  "form (rerender s) = form s" "submitErrors (rerender s) = submitErrors s"
  "scanResult (rerender s) = scanResult s" "isLoading (rerender s) = isLoading s"
  "panels (rerender s) = renderPanels s" "reads (rerender s) = reads s"
  "practicesForm (rerender s) = practicesForm s"
  "practicesIsLoading (rerender s) = practicesIsLoading s"
  "bestPractices (rerender s) = bestPractices s"
  "toasts (rerender s) = toasts s" "gateway (rerender s) = gateway s"
  by (simp_all add: rerender_def Let_def)

lemma renderPanels_cong:
  "scanResult a = scanResult b \<Longrightarrow> form a = form b \<Longrightarrow> renderPanels a = renderPanels b"
  by (simp add: renderPanels_def split: option.splits)

lemma renderPanels_rerender [simp]: "renderPanels (rerender s) = renderPanels s"
  by (rule renderPanels_cong) simp_all


text \<open>
  C3: a scan submission reaches the gateway only when the code has at least 20 and at most
  8000 characters. A shorter code is reported as too short and a longer one as too long,
  each as an issue of the code field and without a gateway call; a code of exactly 20 or
  exactly 8000 characters raises no issue of the code field.
\<close>

theorem scan_code_length_gate:
  "(gateway (submitScan s) \<noteq> gateway s \<longrightarrow>
      20 \<le> length (code (form s)) \<and> length (code (form s)) \<le> 8000)
   \<and> (length (code (form s)) < 20 \<longrightarrow>
        (CodeField, ''Please enter at least 20 characters of code.'') \<in> set (submitErrors (submitScan s))
        \<and> gateway (submitScan s) = gateway s)
   \<and> (length (code (form s)) > 8000 \<longrightarrow>
        (CodeField, ''Code cannot exceed 8000 characters.'') \<in> set (submitErrors (submitScan s))
        \<and> gateway (submitScan s) = gateway s)
   \<and> (length (code (form s)) = 20 \<or> length (code (form s)) = 8000 \<longrightarrow>
        CodeField \<notin> fst ` set (formSchema (form s)))"
  by (auto simp: submitScan_def formSchema_def onSubmit_call_def Let_def split: if_splits)

theorem scan_code_length_gate_witness:
  "length (code (form (pageWith ''Python'' (codeOfLength 19)))) < 20
   \<and> submitErrors (submitScan (pageWith ''Python'' (codeOfLength 19)))
       = [(CodeField, ''Please enter at least 20 characters of code.'')]
   \<and> gateway (submitScan (pageWith ''Python'' (codeOfLength 19))) = []
   \<and> 8000 < length (code (form (pageWith ''Python'' (codeOfLength 8001))))
   \<and> submitErrors (submitScan (pageWith ''Python'' (codeOfLength 8001)))
       = [(CodeField, ''Code cannot exceed 8000 characters.'')]
   \<and> gateway (submitScan (pageWith ''Python'' (codeOfLength 8001))) = []
   \<and> gateway (submitScan (pageWith ''Python'' (codeOfLength 20)))
       = [HandleVulnerabilityScan ''Python'' (codeOfLength 20)]
   \<and> gateway (submitScan (pageWith ''Python'' (codeOfLength 8000)))
       = [HandleVulnerabilityScan ''Python'' (codeOfLength 8000)]"
  using scan_code_length_gate [of "pageWith ''Python'' (codeOfLength 19)"]
    scan_code_length_gate [of "pageWith ''Python'' (codeOfLength 8001)"]
    scan_code_length_gate [of "pageWith ''Python'' (codeOfLength 20)"]
    scan_code_length_gate [of "pageWith ''Python'' (codeOfLength 8000)"]
  by (simp add: pageWith_def initialPage_def submitScan_def formSchema_def onSubmit_call_def)

text \<open>
  C4: a submission of the scan form or of the best-practices form with an empty language
  is rejected with an issue of the language field, and no gateway call is made.
\<close>

theorem empty_language_rejected:
  "(language (form s) = [] \<longrightarrow>
      (LanguageField, ''Please select a language.'') \<in> set (submitErrors (submitScan s))
      \<and> gateway (submitScan s) = gateway s)
   \<and> (language (practicesForm s) = [] \<longrightarrow>
      (LanguageField, ''Please select a language.'')
        \<in> set (practicesSubmitErrors (submitBestPractices s))
      \<and> gateway (submitBestPractices s) = gateway s)"
  by (auto simp: submitScan_def formSchema_def submitBestPractices_def
      bestPracticesFormSchema_def Let_def)

theorem empty_language_rejected_witness:
  "language (form (pageWith [] (codeOfLength 25))) = []
   \<and> submitErrors (submitScan (pageWith [] (codeOfLength 25)))
       = [(LanguageField, ''Please select a language.'')]
   \<and> gateway (submitScan (pageWith [] (codeOfLength 25))) = []
   \<and> language (practicesForm (pageWith [] (codeOfLength 25))) = []
   \<and> practicesSubmitErrors (submitBestPractices (pageWith [] (codeOfLength 25)))
       = [(LanguageField, ''Please select a language.'')]
   \<and> gateway (submitBestPractices (pageWith [] (codeOfLength 25))) = []"
  using empty_language_rejected [of "pageWith [] (codeOfLength 25)"]
  by (simp add: pageWith_def initialPage_def submitScan_def formSchema_def
      submitBestPractices_def bestPracticesFormSchema_def)

text \<open>
  C2 fails as stated: the language "COBOL" is not empty and not in the supported set, yet a
  submission with it and a code of 20 characters raises no issue and calls the gateway.
\<close>

theorem unsupported_language_accepted_counterexample:
  "language (form (pageWith ''COBOL'' (codeOfLength 20))) = ''COBOL''
   \<and> ''COBOL'' \<noteq> []
   \<and> ''COBOL'' \<notin> set supportedLanguages
   \<and> formSchema (form (pageWith ''COBOL'' (codeOfLength 20))) = []
   \<and> submitErrors (submitScan (pageWith ''COBOL'' (codeOfLength 20))) = []
   \<and> gateway (pageWith ''COBOL'' (codeOfLength 20)) = []
   \<and> gateway (submitScan (pageWith ''COBOL'' (codeOfLength 20)))
       = [HandleVulnerabilityScan ''COBOL'' (codeOfLength 20)]"
  by (simp add: pageWith_def initialPage_def submitScan_def formSchema_def onSubmit_call_def
      supportedLanguages_def)

text \<open>
  C2, as the code has it: the schema raises an issue of the language field exactly when
  the language is empty. Membership in the supported set is not checked: a submission with
  a non-empty language and a code of 20 to 8000 characters passes validation, and the
  gateway scan is called with that language, supported or not.
\<close>

theorem language_membership_unchecked:
  "(LanguageField \<in> fst ` set (formSchema v) \<longleftrightarrow> language v = [])
   \<and> (language (form s) \<noteq> [] \<and> 20 \<le> length (code (form s)) \<and> length (code (form s)) \<le> 8000 \<longrightarrow>
        submitErrors (submitScan s) = []
        \<and> gateway (submitScan s)
            = gateway s @ [HandleVulnerabilityScan (language (form s)) (code (form s))])"
  by (auto simp: submitScan_def formSchema_def onSubmit_call_def Let_def split: if_splits)

theorem language_membership_unchecked_witness:
  "language (form (pageWith ''Fortran'' (codeOfLength 8000))) \<noteq> []
   \<and> ''Fortran'' \<notin> set supportedLanguages
   \<and> LanguageField \<notin> fst ` set (formSchema (form (pageWith ''Fortran'' (codeOfLength 8000))))
   \<and> LanguageField \<in> fst ` set (formSchema (form (pageWith [] (codeOfLength 8000))))
   \<and> submitErrors (submitScan (pageWith ''Fortran'' (codeOfLength 8000))) = []
   \<and> gateway (submitScan (pageWith ''Fortran'' (codeOfLength 8000)))
       = [HandleVulnerabilityScan ''Fortran'' (codeOfLength 8000)]"
  using language_membership_unchecked
      [of "form (pageWith ''Fortran'' (codeOfLength 8000))" "pageWith ''Fortran'' (codeOfLength 8000)"]
    language_membership_unchecked
      [of "form (pageWith [] (codeOfLength 8000))" "pageWith ''Fortran'' (codeOfLength 8000)"]
  by (simp add: pageWith_def initialPage_def supportedLanguages_def)

section \<open>Properties of the three workflows\<close>

lemma shown_sections: "sections shownPage = [initialSection, initialSection]"
  by (simp add: eval_defs)

text \<open>
  C6: after an invocation of the scan, remediation or best-practices workflow has finished,
  whether the gateway call resolved, rejected or raised, the loading flag of that workflow
  is false.
\<close>

theorem loading_flag_reset:
  "isLoading (onSubmit vals out s) = False
   \<and> isLoading (step (ScanSettled out) s) = False
   \<and> (i < length (sections s) \<longrightarrow>
        remIsLoading (sections (onGetRemediation props rout i s) ! i) = False)
   \<and> practicesIsLoading (practicesOnSubmit pvalues pout s) = False
   \<and> practicesIsLoading (step (BestPracticesSettled pout) s) = False"
  by (auto simp: onSubmit_def onSubmit_settled_def onSubmit_call_def toast_def
      onGetRemediation_def onGetRemediation_settled_def onGetRemediation_call_def
      practicesOnSubmit_def practicesOnSubmit_settled_def practicesOnSubmit_call_def
      split: outcome.splits)

theorem loading_flag_reset_witness:
  "0 < length (sections shownPage)
   \<and> remIsLoading (sections (onGetRemediation injectionProps Thrown 0 shownPage) ! 0) = False
   \<and> isLoading (onSubmit (form shownPage) Thrown shownPage) = False
   \<and> practicesIsLoading (practicesOnSubmit \<lparr>language = ''Go''\<rparr> Rejected shownPage) = False"
  using loading_flag_reset [where s = shownPage and i = 0 and props = injectionProps
      and rout = Thrown and out = Thrown and vals = "form shownPage"
      and pvalues = "\<lparr>language = ''Go''\<rparr>" and pout = Rejected]
    shown_sections
  by simp

lemma section_overwrite:
  "(r::remediation_state)\<lparr>remIsLoading := l, suggestion := g\<rparr> = \<lparr>remIsLoading = l, suggestion = g\<rparr>"
  "(r::remediation_state)\<lparr>suggestion := g, remIsLoading := l\<rparr> = \<lparr>remIsLoading = l, suggestion = g\<rparr>"
  by (cases r; simp)+

lemma busy_results:
  "sections busyPage = [initialSection, \<lparr>remIsLoading = False, suggestion = Some ''fix B''\<rparr>]"
  "bestPractices busyPage = Some ''Validate all input''"
  by (simp_all add: eval_defs)

lemma onSubmit_failed:
  assumes "failed out"
  shows "form (onSubmit vals out s) = form s"
    and "toasts (onSubmit vals out s) = toasts s @ [scanFailedToast]"
    and "scanResult (onSubmit vals out s) = None"
    and "bestPractices (onSubmit vals out s) = bestPractices s"
  using assms
  by (cases out; simp add: onSubmit_def onSubmit_settled_def onSubmit_call_def toast_def)+

lemma onGetRemediation_frame:
  "scanResult (onGetRemediation props rout i s) = scanResult s"
  "form (onGetRemediation props rout i s) = form s"
  "bestPractices (onGetRemediation props rout i s) = bestPractices s"
  by (cases rout; simp add: onGetRemediation_def onGetRemediation_settled_def
        onGetRemediation_call_def toast_def)+

lemma onGetRemediation_failed:
  assumes "failed rout" "i < length (sections s)"
  shows "suggestion (sections (onGetRemediation props rout i s) ! i) = None"
  using assms
  by (cases rout; simp add: onGetRemediation_def onGetRemediation_settled_def
        onGetRemediation_call_def toast_def)

lemma onGetRemediation_failed_sections:
  assumes "failed rout"
  shows "sections (onGetRemediation props rout i s)
         = (sections s)[i := \<lparr>remIsLoading = False, suggestion = None\<rparr>]"
    and "toasts (onGetRemediation props rout i s) = toasts s @ [remediationFailedToast]"
proof -
  show "sections (onGetRemediation props rout i s)
         = (sections s)[i := \<lparr>remIsLoading = False, suggestion = None\<rparr>]"
  proof (cases "i < length (sections s)")
    case True
    then show ?thesis
      using assms
      by (cases rout; simp add: onGetRemediation_def onGetRemediation_settled_def
            onGetRemediation_call_def toast_def section_overwrite)
  next
    case False
    then have "length (sections s) \<le> i"
      by simp
    then show ?thesis
      using assms
      by (cases rout; simp add: onGetRemediation_def onGetRemediation_settled_def
            onGetRemediation_call_def toast_def list_update_beyond)
  qed
  show "toasts (onGetRemediation props rout i s) = toasts s @ [remediationFailedToast]"
    using assms
    by (cases rout; simp add: onGetRemediation_def onGetRemediation_settled_def
          onGetRemediation_call_def toast_def)
qed

lemma practicesOnSubmit_frame:
  "scanResult (practicesOnSubmit pvalues pout s) = scanResult s"
  "form (practicesOnSubmit pvalues pout s) = form s"
  "sections (practicesOnSubmit pvalues pout s) = sections s"
  by (cases pout; simp add: practicesOnSubmit_def practicesOnSubmit_settled_def
        practicesOnSubmit_call_def toast_def)+

lemma practicesOnSubmit_failed:
  assumes "failed pout"
  shows "bestPractices (practicesOnSubmit pvalues pout s) = None"
    and "toasts (practicesOnSubmit pvalues pout s) = toasts s @ [bestPracticesFailedToast]"
  using assms
  by (cases pout; simp add: practicesOnSubmit_def practicesOnSubmit_settled_def
        practicesOnSubmit_call_def toast_def)+

text \<open>
  C7: after a scan whose gateway call failed, the form still holds the language and code it
  held at submission, one destructive notification has been raised, there is no scan
  result, and the best-practices result is what it was. A failed remediation call raises
  its notification, leaves the scan result, what it renders, the form, the best-practices
  result and the sections of the other findings as they were, and leaves its own section
  without a suggestion. A failed best-practices call raises its notification, leaves the
  scan result, what it renders, the form and every section as they were, and leaves the
  best-practices result absent.
\<close>

theorem failure_keeps_input_and_other_results:
  "(failed out \<longrightarrow>
      form (onSubmit vals out s) = form s
      \<and> toasts (onSubmit vals out s) = toasts s @ [scanFailedToast]
      \<and> variant scanFailedToast = DestructiveToast
      \<and> scanResult (onSubmit vals out s) = None
      \<and> bestPractices (onSubmit vals out s) = bestPractices s)
   \<and> (failed rout \<longrightarrow>
      scanResult (onGetRemediation props rout i s) = scanResult s
      \<and> renderPanels (onGetRemediation props rout i s) = renderPanels s
      \<and> form (onGetRemediation props rout i s) = form s
      \<and> bestPractices (onGetRemediation props rout i s) = bestPractices s
      \<and> toasts (onGetRemediation props rout i s) = toasts s @ [remediationFailedToast]
      \<and> sections (onGetRemediation props rout i s)
          = (sections s)[i := \<lparr>remIsLoading = False, suggestion = None\<rparr>]
      \<and> (i < length (sections s) \<longrightarrow>
            suggestion (sections (onGetRemediation props rout i s) ! i) = None))
   \<and> (failed pout \<longrightarrow>
      scanResult (practicesOnSubmit pvalues pout s) = scanResult s
      \<and> renderPanels (practicesOnSubmit pvalues pout s) = renderPanels s
      \<and> form (practicesOnSubmit pvalues pout s) = form s
      \<and> sections (practicesOnSubmit pvalues pout s) = sections s
      \<and> toasts (practicesOnSubmit pvalues pout s) = toasts s @ [bestPracticesFailedToast]
      \<and> bestPractices (practicesOnSubmit pvalues pout s) = None)"
proof -
  have v: "variant scanFailedToast = DestructiveToast"
    by (simp add: scanFailedToast_def)
  have r: "renderPanels (onGetRemediation props rout i s) = renderPanels s"
    by (rule renderPanels_cong) (rule onGetRemediation_frame)+
  have p: "renderPanels (practicesOnSubmit pvalues pout s) = renderPanels s"
    by (rule renderPanels_cong) (rule practicesOnSubmit_frame)+
  show ?thesis
    using v r p
    by (simp add: onSubmit_failed onGetRemediation_frame onGetRemediation_failed
        onGetRemediation_failed_sections practicesOnSubmit_frame practicesOnSubmit_failed)
qed

theorem failure_keeps_input_and_other_results_witness:
  "suggestion (sections busyPage ! 1) = Some ''fix B''
   \<and> bestPractices busyPage = Some ''Validate all input''
   \<and> failed (Rejected :: scan_output outcome)
   \<and> form (onSubmit (form busyPage) Rejected busyPage) = form busyPage
   \<and> toasts (onSubmit (form busyPage) Rejected busyPage) = toasts busyPage @ [scanFailedToast]
   \<and> scanResult (onSubmit (form busyPage) Rejected busyPage) = None
   \<and> bestPractices (onSubmit (form busyPage) Rejected busyPage) = Some ''Validate all input''
   \<and> failed (Thrown :: string outcome)
   \<and> scanResult (onGetRemediation weakHashProps Thrown 1 busyPage) = scanResult busyPage
   \<and> bestPractices (onGetRemediation weakHashProps Thrown 1 busyPage) = Some ''Validate all input''
   \<and> sections (onGetRemediation weakHashProps Thrown 1 busyPage)
       = [initialSection, \<lparr>remIsLoading = False, suggestion = None\<rparr>]
   \<and> scanResult (practicesOnSubmit \<lparr>language = ''Go''\<rparr> Rejected busyPage) = scanResult busyPage
   \<and> sections (practicesOnSubmit \<lparr>language = ''Go''\<rparr> Rejected busyPage)
       = [initialSection, \<lparr>remIsLoading = False, suggestion = Some ''fix B''\<rparr>]
   \<and> bestPractices (practicesOnSubmit \<lparr>language = ''Go''\<rparr> Rejected busyPage) = None"
  using failure_keeps_input_and_other_results [where s = busyPage and i = 1
      and props = weakHashProps and rout = Thrown and out = Rejected
      and vals = "form busyPage" and pvalues = "\<lparr>language = ''Go''\<rparr>" and pout = Rejected]
    busy_results
  by simp

lemma renderPanels_Some:
  "scanResult s = Some result \<Longrightarrow>
     renderPanels s = map (renderPanel (form s)) (enumerate 0 (vulnerabilities result))"
  by (simp add: renderPanels_def)

lemma renderPanel_maps:
  "map (finding \<circ> renderPanel v) (enumerate n xs) = xs"
  "map (itemIndex \<circ> renderPanel v) (enumerate n xs) = [n..<n + length xs]"
  "map (badge \<circ> renderPanel v) (enumerate n xs) = map (\<lambda>x. getBadgeVariant (severity x)) xs"
proof -
  show "map (finding \<circ> renderPanel v) (enumerate n xs) = xs"
    by (induction xs arbitrary: n) (simp_all add: renderPanel_def)
  show "map (itemIndex \<circ> renderPanel v) (enumerate n xs) = [n..<n + length xs]"
    by (induction xs arbitrary: n) (simp_all add: renderPanel_def upt_rec)
  show "map (badge \<circ> renderPanel v) (enumerate n xs) = map (\<lambda>x. getBadgeVariant (severity x)) xs"
    by (induction xs arbitrary: n) (simp_all add: renderPanel_def)
qed

text \<open>
  C8: after a successful scan that returned no finding, the success notification (not a
  destructive one) has been raised and no panel is rendered. After a successful scan that
  returned \<open>N \<ge> 1\<close> findings, exactly \<open>N\<close> panels are rendered, in the order of
  the returned sequence, the panel at position \<open>i\<close> showing the \<open>i\<close>-th finding
  with the badge that \<open>getBadgeVariant\<close> gives to its severity.
\<close>

theorem scan_success_rendering:
  "(vulnerabilities result = [] \<longrightarrow>
      toasts (onSubmit vals (Resolved result) s) = toasts s @ [scanCleanToast]
      \<and> variant scanCleanToast = DefaultToast
      \<and> renderPanels (onSubmit vals (Resolved result) s) = [])
   \<and> (1 \<le> length (vulnerabilities result) \<longrightarrow>
      length (renderPanels (onSubmit vals (Resolved result) s)) = length (vulnerabilities result)
      \<and> map finding (renderPanels (onSubmit vals (Resolved result) s)) = vulnerabilities result
      \<and> map itemIndex (renderPanels (onSubmit vals (Resolved result) s))
          = [0..<length (vulnerabilities result)]
      \<and> map badge (renderPanels (onSubmit vals (Resolved result) s))
          = map (\<lambda>v. getBadgeVariant (severity v)) (vulnerabilities result))"
proof -
  let ?s = "onSubmit vals (Resolved result) s"
  have sr: "scanResult ?s = Some result"
    by (simp add: onSubmit_def onSubmit_settled_def)
  have t: "vulnerabilities result = [] \<Longrightarrow> toasts ?s = toasts s @ [scanCleanToast]"
    by (simp add: onSubmit_def onSubmit_settled_def onSubmit_call_def toast_def)
  have v: "variant scanCleanToast = DefaultToast"
    by (simp add: scanCleanToast_def)
  have r: "renderPanels ?s = map (renderPanel (form ?s)) (enumerate 0 (vulnerabilities result))"
    using sr by (rule renderPanels_Some)
  have e: "vulnerabilities result = [] \<Longrightarrow> renderPanels ?s = []"
    unfolding r by simp
  have l: "length (renderPanels ?s) = length (vulnerabilities result)"
    unfolding r by simp
  have f: "map finding (renderPanels ?s) = vulnerabilities result"
    unfolding r by (simp add: renderPanel_maps)
  have i: "map itemIndex (renderPanels ?s) = [0..<length (vulnerabilities result)]"
    unfolding r by (simp add: renderPanel_maps)
  have b: "map badge (renderPanels ?s)
           = map (\<lambda>v. getBadgeVariant (severity v)) (vulnerabilities result)"
    unfolding r by (simp add: renderPanel_maps)
  show ?thesis
    using t v e l f i b by blast
qed

lemma example_badges:
  "getBadgeVariant ''High'' = Destructive" "getBadgeVariant ''medium'' = Secondary"
  by code_simp+

theorem scan_success_rendering_witness:
  "toasts (onSubmit (form shownPage) (Resolved \<lparr>vulnerabilities = []\<rparr>) shownPage)
     = toasts shownPage @ [scanCleanToast]
   \<and> renderPanels (onSubmit (form shownPage) (Resolved \<lparr>vulnerabilities = []\<rparr>) shownPage) = []
   \<and> map finding (renderPanels (onSubmit (form shownPage)
        (Resolved \<lparr>vulnerabilities = [injectionFinding, weakHashFinding]\<rparr>) shownPage))
     = [injectionFinding, weakHashFinding]
   \<and> map itemIndex (renderPanels (onSubmit (form shownPage)
        (Resolved \<lparr>vulnerabilities = [injectionFinding, weakHashFinding]\<rparr>) shownPage))
     = [0, 1]
   \<and> map badge (renderPanels (onSubmit (form shownPage)
        (Resolved \<lparr>vulnerabilities = [injectionFinding, weakHashFinding]\<rparr>) shownPage))
     = [Destructive, Secondary]"
proof -
  have s: "severity injectionFinding = ''High''" "severity weakHashFinding = ''medium''"
    by (simp_all add: injectionFinding_def weakHashFinding_def)
  have u: "[0..<2] = [0, Suc 0]"
    by (simp add: upt_rec)
  show ?thesis
    using scan_success_rendering [where result = "\<lparr>vulnerabilities = []\<rparr>"
        and vals = "form shownPage" and s = shownPage]
      scan_success_rendering
        [where result = "\<lparr>vulnerabilities = [injectionFinding, weakHashFinding]\<rparr>"
        and vals = "form shownPage" and s = shownPage]
    by (simp add: s u example_badges)
qed

text \<open>
  C10: a change event of the file input whose file list is absent or empty updates
  nothing: the page state, the code field included, is what it was.
\<close>

theorem empty_file_list_changes_nothing:
  "handleFileChange None s = s \<and> handleFileChange (Some []) s = s
   \<and> step (FileChange None) s = s \<and> step (FileChange (Some [])) s = s"
  by (simp add: handleFileChange_def)

theorem empty_file_list_changes_nothing_witness:
  "step (FileChange (Some [])) shownPage = shownPage
   \<and> code (form (step (FileChange (Some [])) shownPage)) = submittedCode"
proof -
  have "code (form shownPage) = submittedCode"
    by (simp add: eval_defs)
  then show ?thesis
    using empty_file_list_changes_nothing [of shownPage] by simp
qed

section \<open>Properties of the remediation sections\<close>

lemma rerender_sections_length [simp]: "length (sections (rerender s)) = length (renderPanels s)"
  by (simp add: rerender_def mountSections_def Let_def)



lemma rerender_openItem [simp]:
  "openItem (rerender s) = (if renderPanels s = [] then None else openItem s)"
  by (simp add: rerender_def Let_def)
























section \<open>What a remediation call sends\<close>

lemma renderPanels_props:
  "p \<in> set (renderPanels s) \<Longrightarrow>
     language (remediationProps p) = language (form s) \<and> code (remediationProps p) = code (form s)"
  by (auto simp: renderPanels_def renderPanel_def split: option.splits if_splits)

lemma propsCarry_rerender: "form s = v \<Longrightarrow> propsCarry v (rerender s)"
  by (auto simp: propsCarry_def dest: renderPanels_props)

lemma propsCarryI:
  "form t = form s \<Longrightarrow> panels t = panels s \<Longrightarrow> propsCarry v s \<Longrightarrow> propsCarry v t"
  by (simp add: propsCarry_def)

lemma appends_refl: "gateway t = gateway s \<Longrightarrow> appends v s t"
  by (simp add: appends_def)

lemma appends_one: "gateway t = gateway s @ [c] \<Longrightarrow> sendsValues v c \<Longrightarrow> appends v s t"
  by (simp add: appends_def)

lemma appends_rerender [simp]: "appends v s (rerender t) = appends v s t"
  by (simp add: appends_def)

lemma appends_trans: "appends v s t \<Longrightarrow> appends v t u \<Longrightarrow> appends v s u"
  by (auto simp: appends_def)

text \<open>
  An event that does not edit the scan form keeps the props on screen equal to the form
  values, and every remediation call it makes sends those values.
\<close>

lemma step_unedited:
  assumes ne: "\<not> editsForm e" and pc: "propsCarry v s"
  shows "propsCarry v (step e s) \<and> appends v s (step e s)"
proof -
  have fv: "form s = v"
    using pc by (simp add: propsCarry_def)
  show ?thesis
  proof (cases e)
    case (FileChange files)
    then show ?thesis
      using pc
      by (auto intro!: appends_refl propsCarryI [OF _ _ pc] simp: handleFileChange_def
          split: option.splits list.splits)
  next
    case SubmitScan
    have "form (submitScan s) = v"
      using fv by (simp add: submitScan_def onSubmit_call_def Let_def)
    moreover have "appends v s (submitScan s)"
      by (simp add: appends_def submitScan_def onSubmit_call_def Let_def sendsValues_def)
    moreover have "\<not> isLoading (submitScan s) \<Longrightarrow> propsCarry v (submitScan s)"
      by (rule propsCarryI [OF _ _ pc])
         (simp_all add: submitScan_def onSubmit_call_def Let_def split: if_splits)
    ultimately show ?thesis
      using SubmitScan pc by (auto simp: Let_def intro: propsCarry_rerender appends_refl)
  next
    case (ScanSettled out)
    have f: "form (onSubmit_settled out s) = form s" "gateway (onSubmit_settled out s) = gateway s"
      by (cases out; simp add: onSubmit_settled_def toast_def)+
    have "propsCarry v (rerender (onSubmit_settled out s))"
      by (rule propsCarry_rerender) (simp add: f fv)
    moreover have "appends v s (onSubmit_settled out s)"
      by (simp add: appends_refl f)
    ultimately show ?thesis
      using ScanSettled pc by (simp add: appends_refl)
  next
    case (ClickRemediation i)
    show ?thesis
    proof (cases "openItem s = Some i \<and> i < length (panels s) \<and> i < length (sections s)
        \<and> \<not> remIsLoading (sections s ! i)")
      case True
      then have "panels s ! i \<in> set (panels s)"
        by simp
      then have "sendsValues v (HandleRemediation (code (remediationProps (panels s ! i)))
          (description (vulnerability (remediationProps (panels s ! i))))
          (language (remediationProps (panels s ! i))))"
        using pc by (simp add: propsCarry_def sendsValues_def)
      then show ?thesis
        using True ClickRemediation
        by (auto intro!: appends_one propsCarryI [OF _ _ pc] simp: onGetRemediation_call_def)
    next
      case False
      then show ?thesis
        using ClickRemediation pc by (auto intro!: appends_refl)
    qed
  next
    case (ToggleItem i)
    then show ?thesis
      using pc by (auto intro!: appends_refl propsCarryI [OF _ _ pc] simp: toggleItem_def)
  next
    case Rerender
    then show ?thesis
      using fv by (simp add: propsCarry_rerender appends_refl)
  next
    case (RemediationSettled epoch i out)
    let ?t = "onGetRemediation_settled out i s"
    let ?u = "onGetRemediation_settled_unmounted out s"
    have f: "form ?t = form s" "gateway ?t = gateway s" "panels ?t = panels s"
      by (cases out; simp add: onGetRemediation_settled_def toast_def)+
    have g: "form ?u = form s" "gateway ?u = gateway s"
      by (cases out; simp add: onGetRemediation_settled_unmounted_def toast_def)+
    have "propsCarry v ?t"
      by (rule propsCarryI [OF f(1) f(3) pc])
    moreover have "propsCarry v (rerender ?t)"
      by (rule propsCarry_rerender) (simp add: f fv)
    moreover have "propsCarry v (rerender ?u)"
      by (rule propsCarry_rerender) (simp add: g fv)
    moreover have "appends v s ?t" "appends v s ?u"
      by (simp_all add: appends_refl f g)
    ultimately show ?thesis
      using RemediationSettled pc by (cases out) (simp_all add: appends_refl)
  next
    case (EditPracticesLanguage l)
    then show ?thesis
      using pc by (auto intro!: appends_refl propsCarryI [OF _ _ pc])
  next
    case SubmitBestPractices
    have "form (submitBestPractices s) = form s" "panels (submitBestPractices s) = panels s"
      by (simp_all add: submitBestPractices_def practicesOnSubmit_call_def Let_def)
    moreover have "appends v s (submitBestPractices s)"
      by (simp add: appends_def submitBestPractices_def practicesOnSubmit_call_def Let_def
          sendsValues_def)
    ultimately show ?thesis
      using SubmitBestPractices pc by (auto intro: appends_refl propsCarryI [OF _ _ pc])
  next
    case (BestPracticesSettled out)
    let ?t = "practicesOnSubmit_settled out s"
    have f: "form ?t = form s" "gateway ?t = gateway s" "panels ?t = panels s"
      by (cases out; simp add: practicesOnSubmit_settled_def toast_def)+
    have "propsCarry v ?t"
      by (rule propsCarryI [OF f(1) f(3) pc])
    moreover have "propsCarry v (rerender ?t)"
      by (rule propsCarry_rerender) (simp add: f fv)
    moreover have "appends v s ?t"
      by (simp add: appends_refl f)
    ultimately show ?thesis
      using BestPracticesSettled pc by (cases out) (simp_all add: appends_refl)
  qed (use ne in simp_all)
qed

lemma run_unedited:
  "\<forall>e \<in> set es. \<not> editsForm e \<Longrightarrow> propsCarry v s \<Longrightarrow> appends v s (run es s)"
proof (induction es arbitrary: s)
  case Nil
  then show ?case by (simp add: appends_refl)
next
  case (Cons e es)
  then have "propsCarry v (step e s)" "appends v s (step e s)"
    using step_unedited [of e v s] by simp_all
  moreover have "appends v (step e s) (run es (step e s))"
    using Cons \<open>propsCarry v (step e s)\<close> by simp
  ultimately show ?case
    by (auto intro: appends_trans)
qed

text \<open>
  C1 fails as stated: the props of a section are the form values read at the last render
  of the page, not the values that were submitted. Here the user changes the language and
  the code while the scan is under way; the result is rendered with the changed values,
  and, once the item of its finding is opened, the remediation call for that finding
  sends them.
\<close>

theorem remediation_after_edit_counterexample:
  "gateway (run [EditLanguage ''Python'', EditCode submittedCode, SubmitScan,
                 EditLanguage ''Java'', EditCode editedCode,
                 ScanSettled (Resolved \<lparr>vulnerabilities = [injectionFinding]\<rparr>),
                 ToggleItem 0, ClickRemediation 0] initialPage)
   = [HandleVulnerabilityScan ''Python'' submittedCode,
      HandleRemediation editedCode ''SQL injection'' ''Java'']
   \<and> editedCode \<noteq> submittedCode \<and> ''Java'' \<noteq> ''Python''"
  by (simp add: eval_defs)

text \<open>
  C1, as the code has it: when a valid scan form is submitted and the form is not edited
  afterwards, every remediation call made from then on sends the language and the code of
  the submitted request.
\<close>

theorem remediation_sends_unedited_form_values:
  assumes "\<not> isLoading s" and "formSchema (form s) = []" and "\<forall>e \<in> set es. \<not> editsForm e"
  shows "\<forall>c \<in> set (drop (length (gateway s)) (gateway (run (SubmitScan # es) s))).
           sendsValues (form s) c"
proof -
  let ?s1 = "step SubmitScan s"
  have s1: "?s1 = rerender (onSubmit_call (form s) (s\<lparr>submitErrors := []\<rparr>))"
    using assms(1,2) by (simp add: submitScan_def onSubmit_call_def)
  have g1: "gateway ?s1 = gateway s @ [HandleVulnerabilityScan (language (form s)) (code (form s))]"
    unfolding s1 by (simp add: onSubmit_call_def)
  have "form ?s1 = form s"
    unfolding s1 by (simp add: onSubmit_call_def)
  then have "propsCarry (form s) ?s1"
    unfolding s1 by (simp add: propsCarry_rerender)
  then have "appends (form s) ?s1 (run es ?s1)"
    using assms(3) by (rule run_unedited [rotated])
  then obtain new where "gateway (run es ?s1) = gateway ?s1 @ new"
      "\<forall>c \<in> set new. sendsValues (form s) c"
    by (auto simp: appends_def)
  then show ?thesis
    using g1 by (simp add: sendsValues_def del: step.simps)
qed

theorem remediation_sends_unedited_form_values_witness:
  "\<not> isLoading (pageWith ''Python'' submittedCode)
   \<and> formSchema (form (pageWith ''Python'' submittedCode)) = []
   \<and> \<not> editsForm (ScanSettled (Resolved \<lparr>vulnerabilities = [injectionFinding]\<rparr>))
   \<and> \<not> editsForm (ToggleItem 0)
   \<and> \<not> editsForm (ClickRemediation 0)
   \<and> gateway (run [SubmitScan, ScanSettled (Resolved \<lparr>vulnerabilities = [injectionFinding]\<rparr>),
                    ToggleItem 0, ClickRemediation 0] (pageWith ''Python'' submittedCode))
       = [HandleVulnerabilityScan ''Python'' submittedCode,
          HandleRemediation submittedCode ''SQL injection'' ''Python'']
   \<and> sendsValues (form (pageWith ''Python'' submittedCode))
        (HandleRemediation submittedCode ''SQL injection'' ''Python'')"
proof -
  let ?s = "pageWith ''Python'' submittedCode"
  let ?es = "[ScanSettled (Resolved \<lparr>vulnerabilities = [injectionFinding]\<rparr>), ToggleItem 0,
              ClickRemediation 0]"
  have h1: "\<not> isLoading ?s"
    by (simp add: eval_defs)
  have h2: "formSchema (form ?s) = []"
    by (simp add: eval_defs)
  have h3: "\<forall>e \<in> set ?es. \<not> editsForm e"
    by simp
  have g0: "gateway ?s = []"
    by (simp add: eval_defs)
  have g: "gateway (run (SubmitScan # ?es) ?s)
      = [HandleVulnerabilityScan ''Python'' submittedCode,
         HandleRemediation submittedCode ''SQL injection'' ''Python'']"
    by (simp add: eval_defs)
  have "sendsValues (form ?s) (HandleRemediation submittedCode ''SQL injection'' ''Python'')"
    using remediation_sends_unedited_form_values [OF h1 h2 h3] unfolding g g0 by simp
  then show ?thesis
    using h1 h2 g by simp
qed

end
